theory Spec2Isabelle
  imports Complex_Main "HOL-Library.Log_Nat" "HOL-Library.Product_Lexorder"
begin

section \<open>The concave hull mesh of raylib/rayconcavehull.h\<close>

text \<open>
  The header declares the mesh records (\<open>SurfaceFace\<close>, \<open>Edge\<close>, \<open>Triangle\<close>,
  \<open>Tetrahedron\<close>), the point-in-tetrahedron test \<open>insideTetrahedron\<close>, the comparator
  \<open>FaceComp\<close> of the ordered candidate set, and the stores of the hull itself.

  Conventions of the embedding.
  \<^item> A C++ \<open>int\<close> index is an \<open>int\<close>: the code only compares indices with each other and
    with \<open>-1\<close> and uses them as subscripts, so no wrap-around can occur.
  \<^item> A \<open>double\<close> is a value of IEEE 754 binary64: NaN, an infinity, a signed zero or a
    finite number.  Addition, subtraction, multiplication and division round to nearest,
    ties to even, with gradual underflow and overflow to infinity; \<open><\<close> and \<open>==\<close> are
    the comparisons of the standard, false whenever an operand is NaN.
  \<^item> \<open>std::vector::operator[]\<close> does not check its subscript; a subscript outside the
    vector is undefined behaviour.  A read is therefore an \<open>option\<close>, and \<open>None\<close> stands
    for the out-of-range read.
  \<^item> \<open>int v[4]\<close> and \<open>Eigen::Vector3i\<close> are tuples of four and of three components, read
    with \<open>at4\<close> and \<open>at3\<close>; \<open>Eigen::Vector3d\<close> is a triple of doubles, and its
    operations work component by component, the three products of a dot product being
    summed from left to right.  (The properties below use nothing of the order of that
    sum; the example meshes have coordinates at which every order gives the same value.)
\<close>

subsection \<open>Doubles\<close>

text \<open>
  \<open>Finite 0\<close> is \<open>+0.0\<close> and \<open>NegZero\<close> is \<open>-0.0\<close>; \<open>Finite r\<close> with \<open>r \<noteq> 0\<close> is the
  number \<open>r\<close>.  The type holds every rational, so it holds every finite binary64 value;
  the operations below return binary64 values only.

  \<open>round64 x\<close> is the binary64 value nearest to the rational \<open>x \<noteq> 0\<close>: with \<open>e\<close> the
  exponent of \<open>x\<close> (at least \<open>-1022\<close>, where the subnormal numbers begin), the spacing
  of the binary64 values around \<open>x\<close> is \<open>2 powi (e - 52)\<close>; \<open>x\<close> is rounded to a multiple
  of it, a tie going to the even multiple.  A result of \<open>2 powi 1024\<close> or more (the
  \<open>overflow_threshold\<close>) is an infinity, a result of zero keeps the sign of \<open>x\<close>.
\<close>

datatype double = NaN | NegInf | NegZero | Finite rat | PosInf

text \<open>The exponent of a positive rational: the largest \<open>k\<close> with \<open>2 powi k \<le> x\<close>.\<close>

definition floor_log2 :: "rat \<Rightarrow> int" where
  "floor_log2 x =
     (case quotient_of x of
        (p, q) \<Rightarrow> (let k = bitlen p - bitlen q in if 2 powi k \<le> x then k else k - 1))"

definition round_half_even :: "rat \<Rightarrow> int" where
  "round_half_even y =
     (let f = \<lfloor>y\<rfloor>; d = y - of_int f
      in if d < 1 / 2 then f else if 1 / 2 < d then f + 1 else if even f then f else f + 1)"

definition overflow_threshold :: rat where
  "overflow_threshold = 2 powi 1024"

definition round64 :: "rat \<Rightarrow> double" where
  "round64 x =
     (let e = max (floor_log2 \<bar>x\<bar>) (- 1022);
          q = 2 powi (e - 52);
          n = round_half_even (\<bar>x\<bar> / q);
          r = of_int n * q
      in if overflow_threshold \<le> r then (if x < 0 then NegInf else PosInf)
         else if n = 0 then (if x < 0 then NegZero else Finite 0)
         else Finite (if x < 0 then - r else r))"

text \<open>The classes of a double, its sign bit, and the number a finite double stands for.\<close>

fun is_inf :: "double \<Rightarrow> bool" where
  "is_inf NegInf = True" | "is_inf PosInf = True" | "is_inf _ = False"

fun is_zero :: "double \<Rightarrow> bool" where
  "is_zero NegZero = True" | "is_zero (Finite r) = (r = 0)" | "is_zero _ = False"

fun sign_bit :: "double \<Rightarrow> bool" where
  "sign_bit NegInf = True" | "sign_bit NegZero = True" | "sign_bit (Finite r) = (r < 0)"
| "sign_bit _ = False"

fun magnitude :: "double \<Rightarrow> rat" where
  "magnitude (Finite r) = r" | "magnitude _ = 0"

text \<open>
  The arithmetic of IEEE 754, each operation rounded by itself.  A NaN operand gives NaN,
  and so do infinity minus infinity, zero times infinity, zero by zero and infinity by
  infinity.  A sum of two zeros is \<open>-0.0\<close> only when both are; an exact sum of zero is
  \<open>+0.0\<close> otherwise.  The sign of a product or quotient is the exclusive or of the signs
  of the operands.
\<close>

fun fneg :: "double \<Rightarrow> double" where
  "fneg NaN = NaN" | "fneg NegInf = PosInf" | "fneg PosInf = NegInf"
| "fneg NegZero = Finite 0"
| "fneg (Finite r) = (if r = 0 then NegZero else Finite (- r))"

definition fadd :: "double \<Rightarrow> double \<Rightarrow> double" where
  "fadd a b =
     (if a = NaN \<or> b = NaN then NaN
      else if is_inf a \<and> is_inf b then (if a = b then a else NaN)
      else if is_inf a then a
      else if is_inf b then b
      else if a = NegZero \<and> b = NegZero then NegZero
      else if magnitude a + magnitude b = 0 then Finite 0
      else round64 (magnitude a + magnitude b))"

definition fsub :: "double \<Rightarrow> double \<Rightarrow> double" where
  "fsub a b = fadd a (fneg b)"

definition fmul :: "double \<Rightarrow> double \<Rightarrow> double" where
  "fmul a b =
     (if a = NaN \<or> b = NaN then NaN
      else if (is_inf a \<and> is_zero b) \<or> (is_zero a \<and> is_inf b) then NaN
      else if is_inf a \<or> is_inf b then (if sign_bit a \<noteq> sign_bit b then NegInf else PosInf)
      else if is_zero a \<or> is_zero b then (if sign_bit a \<noteq> sign_bit b then NegZero else Finite 0)
      else round64 (magnitude a * magnitude b))"

definition fdiv :: "double \<Rightarrow> double \<Rightarrow> double" where
  "fdiv a b =
     (if a = NaN \<or> b = NaN then NaN
      else if (is_inf a \<and> is_inf b) \<or> (is_zero a \<and> is_zero b) then NaN
      else if is_inf a \<or> is_zero b then (if sign_bit a \<noteq> sign_bit b then NegInf else PosInf)
      else if is_inf b \<or> is_zero a then (if sign_bit a \<noteq> sign_bit b then NegZero else Finite 0)
      else round64 (magnitude a / magnitude b))"

text \<open>
  The comparisons \<open><\<close> and \<open>==\<close>: false when an operand is NaN; otherwise the doubles are
  compared as extended reals, the two zeros being equal.
\<close>

fun ext :: "double \<Rightarrow> int \<times> rat" where
  "ext NegInf = (- 1, 0)" | "ext PosInf = (1, 0)" | "ext (Finite r) = (0, r)" | "ext _ = (0, 0)"

definition double_less :: "double \<Rightarrow> double \<Rightarrow> bool" where
  "double_less a b = (a \<noteq> NaN \<and> b \<noteq> NaN \<and> ext a < ext b)"

definition double_eq :: "double \<Rightarrow> double \<Rightarrow> bool" where
  "double_eq a b = (a \<noteq> NaN \<and> b \<noteq> NaN \<and> ext a = ext b)"

subsection \<open>Vectors and fixed-size arrays\<close>

type_synonym Vector3d = "double \<times> double \<times> double"

type_synonym 'a array3 = "'a \<times> 'a \<times> 'a"

type_synonym 'a array4 = "'a \<times> 'a \<times> 'a \<times> 'a"

fun at3 :: "'a array3 \<Rightarrow> nat \<Rightarrow> 'a" where
  "at3 (a, b, c) j = (if j = 0 then a else if j = 1 then b else c)"

fun at4 :: "'a array4 \<Rightarrow> nat \<Rightarrow> 'a" where
  "at4 (a, b, c, d) j = (if j = 0 then a else if j = 1 then b else if j = 2 then c else d)"

fun vec_add :: "Vector3d \<Rightarrow> Vector3d \<Rightarrow> Vector3d" where
  "vec_add (a1, a2, a3) (b1, b2, b3) = (fadd a1 b1, fadd a2 b2, fadd a3 b3)"

fun vec_sub :: "Vector3d \<Rightarrow> Vector3d \<Rightarrow> Vector3d" where
  "vec_sub (a1, a2, a3) (b1, b2, b3) = (fsub a1 b1, fsub a2 b2, fsub a3 b3)"

fun vec_div :: "Vector3d \<Rightarrow> double \<Rightarrow> Vector3d" where
  "vec_div (a1, a2, a3) s = (fdiv a1 s, fdiv a2 s, fdiv a3 s)"

fun cross :: "Vector3d \<Rightarrow> Vector3d \<Rightarrow> Vector3d" where
  "cross (a1, a2, a3) (b1, b2, b3) =
     (fsub (fmul a2 b3) (fmul a3 b2), fsub (fmul a3 b1) (fmul a1 b3),
      fsub (fmul a1 b2) (fmul a2 b1))"

fun dot :: "Vector3d \<Rightarrow> Vector3d \<Rightarrow> double" where
  "dot (a1, a2, a3) (b1, b2, b3) = fadd (fadd (fmul a1 b1) (fmul a2 b2)) (fmul a3 b3)"


definition vec :: "rat \<Rightarrow> rat \<Rightarrow> rat \<Rightarrow> Vector3d" where
  "vec x y z = (Finite x, Finite y, Finite z)"

text \<open>\<open>xs[i]\<close> on a \<open>std::vector\<close>, with the out-of-range read made visible.\<close>

definition vector_at :: "'a list \<Rightarrow> int \<Rightarrow> 'a option" where
  "vector_at xs i = (if 0 \<le> i \<and> i < int (length xs) then Some (xs ! nat i) else None)"

subsection \<open>The mesh records\<close>

record SurfaceFace =
  tetrahedron :: int
  triangle :: int
  curvature :: double

record Edge =
  edge_vertices :: "int \<times> int"
  has_had_face :: bool

record Triangle =
  is_surface :: bool
  used :: bool
  tri_vertices :: "int array3"
  tri_edges :: "int array3"
  tri_tetrahedra :: "int \<times> int"
  surface_face_cached :: SurfaceFace

record Tetrahedron =
  tet_vertices :: "int array4"
  tet_triangles :: "int array4"
  neighbours :: "int array4"
  tet_id :: int
  seen :: bool

text \<open>
  The hull's stores.  \<open>surface\<close> is the \<open>std::set<SurfaceFace, FaceComp>\<close>, kept as the
  list of its elements in iteration order, so that \<open>surface.begin()\<close> is the head.
\<close>

record ConcaveHull =
  vertex_on_surface :: "bool list"
  vertices :: "Vector3d list"
  edges :: "Edge list"
  triangles :: "Triangle list"
  tetrahedra :: "Tetrahedron list"
  centre :: Vector3d
  surface :: "SurfaceFace list"

subsection \<open>The comparator of the candidate set\<close>

definition FaceComp :: "SurfaceFace \<Rightarrow> SurfaceFace \<Rightarrow> bool" where
  "FaceComp lhs rhs =
     (if double_eq (curvature lhs) (curvature rhs) then
        (if triangle lhs = triangle rhs then tetrahedron lhs < tetrahedron rhs
         else triangle lhs < triangle rhs)
      else double_less (curvature lhs) (curvature rhs))"

text \<open>The triple the specification orders candidates by, for a curvature that is not NaN,
  under the lexicographic order of \<open>HOL-Library.Product_Lexorder\<close>.\<close>

definition face_key :: "SurfaceFace \<Rightarrow> (int \<times> rat) \<times> int \<times> int" where
  "face_key f = (ext (curvature f), triangle f, tetrahedron f)"

text \<open>
  \<open>insert\<close> on the \<open>std::set<SurfaceFace, FaceComp>\<close>: the element goes before the first
  element it is ordered before, and is dropped when the set holds an element equivalent to
  it (neither ordered before the other).
\<close>

fun set_insert :: "SurfaceFace \<Rightarrow> SurfaceFace list \<Rightarrow> SurfaceFace list" where
  "set_insert x [] = [x]"
| "set_insert x (y # ys) =
     (if FaceComp x y then x # y # ys
      else if FaceComp y x then y # set_insert x ys
      else y # ys)"

text \<open>Two candidates, one with a NaN curvature, that differ in every field.\<close>

definition nan_face :: SurfaceFace where
  "nan_face = \<lparr>tetrahedron = 1, triangle = 1, curvature = NaN\<rparr>"

definition flat_face :: SurfaceFace where
  "flat_face = \<lparr>tetrahedron = 2, triangle = 2, curvature = Finite 1\<rparr>"

text \<open>Two candidates that differ in the sign of a zero curvature only.\<close>

definition plus_zero_face :: SurfaceFace where
  "plus_zero_face = \<lparr>tetrahedron = 3, triangle = 3, curvature = Finite 0\<rparr>"

definition minus_zero_face :: SurfaceFace where
  "minus_zero_face = \<lparr>tetrahedron = 3, triangle = 3, curvature = NegZero\<rparr>"

subsection \<open>Validity of a tetrahedron\<close>

text \<open>\<open>Tetrahedron::valid()\<close>: the test reads the first vertex index only.\<close>

definition Tetrahedron_valid :: "Tetrahedron \<Rightarrow> bool" where
  "Tetrahedron_valid t = (at4 (tet_vertices t) 0 \<noteq> - 1)"

text \<open>The guard at the head of \<open>insideTetrahedron\<close>, commented "an outer tetrahedron" in
  the source: one of the four vertex indices is \<open>-1\<close>.\<close>

definition outer_tetrahedron :: "Tetrahedron \<Rightarrow> bool" where
  "outer_tetrahedron tetra =
     (at4 (tet_vertices tetra) 0 = - 1 \<or> at4 (tet_vertices tetra) 1 = - 1 \<or>
      at4 (tet_vertices tetra) 2 = - 1 \<or> at4 (tet_vertices tetra) 3 = - 1)"

subsection \<open>The point-in-tetrahedron test\<close>

text \<open>
  \<open>insideTetrahedron\<close> subscripts two stores, \<open>vertices\<close> and \<open>triangles\<close>.  The model
  records every subscript it uses, in the order of the source, together with where the
  index came from: a vertex index of the queried tetrahedron, a triangle index of the
  queried tetrahedron, or a vertex index of a triangle that was looked up.  The run stops
  with \<open>None\<close> at the first subscript outside its store.
\<close>

datatype access = VertexOfTetra int | TriangleOfTetra int | VertexOfTriangle int

text \<open>\<open>for (int j = 0; j < 4; j++) mid += vertices[tetra.vertices[j]] / 4.0;\<close>\<close>

fun centroid_loop ::
  "ConcaveHull \<Rightarrow> Tetrahedron \<Rightarrow> nat list \<Rightarrow> Vector3d \<Rightarrow> access list \<times> Vector3d option" where
  "centroid_loop h tetra [] mid = ([], Some mid)"
| "centroid_loop h tetra (j # js) mid =
     (let k = at4 (tet_vertices tetra) j in
      case vector_at (vertices h) k of
        None \<Rightarrow> ([VertexOfTetra k], None)
      | Some v \<Rightarrow>
          (case centroid_loop h tetra js (vec_add mid (vec_div v (Finite 4))) of
             (reads, r) \<Rightarrow> (VertexOfTetra k # reads, r)))"

text \<open>\<open>vertices[triangles[tetra.triangles[i]].vertices[j]]\<close>: the triangle is looked up
  first, then the vertex.\<close>

definition corner ::
  "ConcaveHull \<Rightarrow> Tetrahedron \<Rightarrow> nat \<Rightarrow> nat \<Rightarrow> access list \<times> Vector3d option" where
  "corner h tetra i j =
     (let t = at4 (tet_triangles tetra) i in
      case vector_at (triangles h) t of
        None \<Rightarrow> ([TriangleOfTetra t], None)
      | Some tri \<Rightarrow>
          (let k = at3 (tri_vertices tri) j in
           ([TriangleOfTetra t, VertexOfTriangle k], vector_at (vertices h) k)))"

text \<open>\<open>for (int j = 0; j < 3; j++) vs[j] = ...\<close>\<close>

definition corners ::
  "ConcaveHull \<Rightarrow> Tetrahedron \<Rightarrow> nat \<Rightarrow> access list \<times> (Vector3d \<times> Vector3d \<times> Vector3d) option" where
  "corners h tetra i =
     (case corner h tetra i 0 of
        (r0, None) \<Rightarrow> (r0, None)
      | (r0, Some v0) \<Rightarrow>
          (case corner h tetra i 1 of
             (r1, None) \<Rightarrow> (r0 @ r1, None)
           | (r1, Some v1) \<Rightarrow>
               (case corner h tetra i 2 of
                  (r2, None) \<Rightarrow> (r0 @ r1 @ r2, None)
                | (r2, Some v2) \<Rightarrow> (r0 @ r1 @ r2, Some (v0, v1, v2)))))"

text \<open>The quantity the source compares: \<open>(p - vs[0]).dot((vs[1] - vs[0]).cross(vs[2] - vs[0]))\<close>,
  the signed distance of \<open>p\<close> from the plane of the triangle, scaled by the length of
  the normal, as double arithmetic computes it.\<close>

definition plane_side :: "Vector3d \<times> Vector3d \<times> Vector3d \<Rightarrow> Vector3d \<Rightarrow> double" where
  "plane_side vs p =
     (case vs of (v0, v1, v2) \<Rightarrow> dot (vec_sub p v0) (cross (vec_sub v1 v0) (vec_sub v2 v0)))"

text \<open>The loop over the four bounding triangles, which returns false at the first
  triangle that separates \<open>pos\<close> from \<open>mid\<close>.\<close>

fun face_loop ::
  "ConcaveHull \<Rightarrow> Vector3d \<Rightarrow> Vector3d \<Rightarrow> Tetrahedron \<Rightarrow> nat list \<Rightarrow> access list \<times> bool option" where
  "face_loop h pos mid tetra [] = ([], Some True)"
| "face_loop h pos mid tetra (i # is) =
     (case corners h tetra i of
        (reads, None) \<Rightarrow> (reads, None)
      | (reads, Some vs) \<Rightarrow>
          if double_less (fmul (plane_side vs pos) (plane_side vs mid)) (Finite 0)
          then (reads, Some False)
          else (case face_loop h pos mid tetra is of
                  (reads', r) \<Rightarrow> (reads @ reads', r)))"

definition insideTetrahedron_run ::
  "ConcaveHull \<Rightarrow> Vector3d \<Rightarrow> Tetrahedron \<Rightarrow> access list \<times> bool option" where
  "insideTetrahedron_run h pos tetra =
     (if outer_tetrahedron tetra then ([], Some False)
      else
        (case centroid_loop h tetra [0, 1, 2, 3] (Finite 0, Finite 0, Finite 0) of
           (reads, None) \<Rightarrow> (reads, None)
         | (reads, Some mid) \<Rightarrow>
             (case face_loop h pos mid tetra [0, 1, 2, 3] of
                (reads', r) \<Rightarrow> (reads @ reads', r))))"

text \<open>The value \<open>insideTetrahedron\<close> returns, and the subscripts it used.\<close>

definition insideTetrahedron :: "ConcaveHull \<Rightarrow> Vector3d \<Rightarrow> Tetrahedron \<Rightarrow> bool option" where
  "insideTetrahedron h pos tetra = snd (insideTetrahedron_run h pos tetra)"

definition insideTetrahedron_reads :: "ConcaveHull \<Rightarrow> Vector3d \<Rightarrow> Tetrahedron \<Rightarrow> access list" where
  "insideTetrahedron_reads h pos tetra = fst (insideTetrahedron_run h pos tetra)"

subsection \<open>The geometry of a tetrahedron\<close>

text \<open>
  For a tetrahedron whose indices all lie inside the stores, the vertex with index \<open>k\<close>,
  the corners of its \<open>i\<close>-th bounding triangle, and its centroid.  \<open>well_indexed\<close> says
  that every subscript \<open>insideTetrahedron\<close> can use for the tetrahedron is in range.
\<close>

definition in_range :: "'a list \<Rightarrow> int \<Rightarrow> bool" where
  "in_range xs i = (0 \<le> i \<and> i < int (length xs))"

definition face_triangle :: "ConcaveHull \<Rightarrow> Tetrahedron \<Rightarrow> nat \<Rightarrow> Triangle" where
  "face_triangle h tetra i = triangles h ! nat (at4 (tet_triangles tetra) i)"

definition face_indexed :: "ConcaveHull \<Rightarrow> Tetrahedron \<Rightarrow> nat \<Rightarrow> bool" where
  "face_indexed h tetra i =
     (in_range (triangles h) (at4 (tet_triangles tetra) i) \<and>
      in_range (vertices h) (at3 (tri_vertices (face_triangle h tetra i)) 0) \<and>
      in_range (vertices h) (at3 (tri_vertices (face_triangle h tetra i)) 1) \<and>
      in_range (vertices h) (at3 (tri_vertices (face_triangle h tetra i)) 2))"

definition well_indexed :: "ConcaveHull \<Rightarrow> Tetrahedron \<Rightarrow> bool" where
  "well_indexed h tetra =
     (in_range (vertices h) (at4 (tet_vertices tetra) 0) \<and>
      in_range (vertices h) (at4 (tet_vertices tetra) 1) \<and>
      in_range (vertices h) (at4 (tet_vertices tetra) 2) \<and>
      in_range (vertices h) (at4 (tet_vertices tetra) 3) \<and>
      face_indexed h tetra 0 \<and> face_indexed h tetra 1 \<and>
      face_indexed h tetra 2 \<and> face_indexed h tetra 3)"

definition vertex :: "ConcaveHull \<Rightarrow> int \<Rightarrow> Vector3d" where
  "vertex h k = vertices h ! nat k"

definition face_corners ::
  "ConcaveHull \<Rightarrow> Tetrahedron \<Rightarrow> nat \<Rightarrow> Vector3d \<times> Vector3d \<times> Vector3d" where
  "face_corners h tetra i =
     (vertex h (at3 (tri_vertices (face_triangle h tetra i)) 0),
      vertex h (at3 (tri_vertices (face_triangle h tetra i)) 1),
      vertex h (at3 (tri_vertices (face_triangle h tetra i)) 2))"









subsection \<open>A mesh of one tetrahedron\<close>

text \<open>The tetrahedron with corners \<open>(0,0,0)\<close>, \<open>(4,0,0)\<close>, \<open>(0,4,0)\<close>, \<open>(0,0,4)\<close> and its
  four bounding triangles; its centroid is \<open>(1,1,1)\<close>.  Every number the source computes
  for it at the points used below is a small integer, which binary64 holds exactly.\<close>

definition unit_face :: "int array3 \<Rightarrow> Triangle" where
  "unit_face vs =
     \<lparr>is_surface = False, used = False, tri_vertices = vs, tri_edges = (- 1, - 1, - 1),
      tri_tetrahedra = (0, - 1),
      surface_face_cached = \<lparr>tetrahedron = 0, triangle = - 1, curvature = Finite 0\<rparr>\<rparr>"

definition one_tetrahedron :: Tetrahedron where
  "one_tetrahedron =
     \<lparr>tet_vertices = (0, 1, 2, 3), tet_triangles = (0, 1, 2, 3),
      neighbours = (- 1, - 1, - 1, - 1), tet_id = 0, seen = False\<rparr>"

definition one_tetrahedron_hull :: ConcaveHull where
  "one_tetrahedron_hull =
     \<lparr>vertex_on_surface = [False, False, False, False],
      vertices = [vec 0 0 0, vec 4 0 0, vec 0 4 0, vec 0 0 4],
      edges = [],
      triangles = [unit_face (0, 1, 2), unit_face (0, 1, 3), unit_face (0, 2, 3),
                   unit_face (1, 2, 3)],
      tetrahedra = [one_tetrahedron],
      centre = vec 1 1 1,
      surface = []\<rparr>"



text \<open>The same tetrahedron with its first bounding triangle left unlinked, and with its
  second vertex index invalid.\<close>

definition unlinked_tetrahedron :: Tetrahedron where
  "unlinked_tetrahedron = one_tetrahedron\<lparr>tet_triangles := (- 1, 1, 2, 3)\<rparr>"

definition half_outer_tetrahedron :: Tetrahedron where
  "half_outer_tetrahedron = one_tetrahedron\<lparr>tet_vertices := (0, - 1, 2, 3)\<rparr>"

text \<open>What \<open>Tetrahedron()\<close> sets: the four vertex indices and the identifier are \<open>-1\<close>,
  \<open>seen\<close> is false; the constructor leaves \<open>triangles\<close> and \<open>neighbours\<close> unset, and they
  are given a value here.\<close>

definition default_tetrahedron :: Tetrahedron where
  "default_tetrahedron =
     \<lparr>tet_vertices = (- 1, - 1, - 1, - 1), tet_triangles = (0, 0, 0, 0),
      neighbours = (0, 0, 0, 0), tet_id = - 1, seen = False\<rparr>"

text \<open>The four vertex indices are all \<open>-1\<close>, or none of them is.\<close>

definition uniform_vertices :: "Tetrahedron \<Rightarrow> bool" where
  "uniform_vertices t =
     ((at4 (tet_vertices t) 0 = - 1 \<and> at4 (tet_vertices t) 1 = - 1 \<and>
       at4 (tet_vertices t) 2 = - 1 \<and> at4 (tet_vertices t) 3 = - 1) \<or>
      (at4 (tet_vertices t) 0 \<noteq> - 1 \<and> at4 (tet_vertices t) 1 \<noteq> - 1 \<and>
       at4 (tet_vertices t) 2 \<noteq> - 1 \<and> at4 (tet_vertices t) 3 \<noteq> - 1))"

subsection \<open>The frontier step\<close>

text \<open>
  Modelled from the spec: \<open>growFront\<close>, which rayconcavehull.h declares (line 128) and
  whose body is in no file of the sources.  Section 4.3 of the specification: it "pops
  the lowest-curvature candidate.  If its curvature exceeds maxCurvature, the candidate is
  not consumed (growth halts at this boundary) and the call returns false"; "calling
  growFront after the candidate set is empty, or after all remaining candidates exceed
  maxCurvature, is a no-op returning false"; otherwise a face is consumed and the call
  returns true.  The lowest candidate is the head of \<open>surface\<close>.  What consuming a face
  does to the hull rests on \<open>circumcurvature\<close>, whose formula the specification leaves
  open; it is the parameter \<open>consume\<close>.
\<close>

definition growFront ::
  "(ConcaveHull \<Rightarrow> SurfaceFace \<Rightarrow> ConcaveHull) \<Rightarrow> double \<Rightarrow> ConcaveHull \<Rightarrow> bool \<times> ConcaveHull" where
  "growFront consume maxCurvature h =
     (case surface h of
        [] \<Rightarrow> (False, h)
      | f # fs \<Rightarrow>
          if double_less maxCurvature (curvature f) then (False, h)
          else (True, consume h f))"

text \<open>\<open>n\<close> calls of \<open>growFront\<close> one after the other: what each returned, and the hull
  after the last.\<close>

fun growFront_calls ::
  "(ConcaveHull \<Rightarrow> SurfaceFace \<Rightarrow> ConcaveHull) \<Rightarrow> double \<Rightarrow> nat \<Rightarrow> ConcaveHull \<Rightarrow> bool list \<times> ConcaveHull" where
  "growFront_calls consume maxCurvature 0 h = ([], h)"
| "growFront_calls consume maxCurvature (Suc n) h =
     (case growFront consume maxCurvature h of
        (r, h') \<Rightarrow>
          (case growFront_calls consume maxCurvature n h' of
             (rs, h'') \<Rightarrow> (r # rs, h'')))"

text \<open>A hull whose only candidate has curvature 5, and a consuming step that would mark
  every tetrahedron seen.\<close>

definition waiting_hull :: ConcaveHull where
  "waiting_hull =
     one_tetrahedron_hull\<lparr>surface := [\<lparr>tetrahedron = 0, triangle = 3, curvature = Finite 5\<rparr>]\<rparr>"

definition mark_all_seen :: "ConcaveHull \<Rightarrow> SurfaceFace \<Rightarrow> ConcaveHull" where
  "mark_all_seen h f = h\<lparr>tetrahedra := map (\<lambda>t. t\<lparr>seen := True\<rparr>) (tetrahedra h), surface := []\<rparr>"

section \<open>Properties\<close>

subsection \<open>Doubles\<close>


















subsection \<open>The comparator\<close>

lemma FaceComp_face_key:
  "FaceComp a b \<longleftrightarrow> curvature a \<noteq> NaN \<and> curvature b \<noteq> NaN \<and> face_key a < face_key b"
  by (auto simp: FaceComp_def face_key_def double_eq_def double_less_def)

lemma FaceComp_lexicographic:
  "FaceComp a b \<longleftrightarrow>
     double_less (curvature a) (curvature b) \<or>
     double_eq (curvature a) (curvature b) \<and>
       (triangle a < triangle b \<or> triangle a = triangle b \<and> tetrahedron a < tetrahedron b)"
  by (auto simp: FaceComp_def double_eq_def double_less_def)

lemma FaceComp_irrefl: "\<not> FaceComp a a"
  by (simp add: FaceComp_face_key)

lemma FaceComp_trans: "FaceComp a b \<Longrightarrow> FaceComp b c \<Longrightarrow> FaceComp a c"
  unfolding FaceComp_face_key by (auto intro: less_trans)

lemma FaceComp_asym: "FaceComp a b \<Longrightarrow> \<not> FaceComp b a"
  unfolding FaceComp_face_key by (auto dest: less_not_sym)

lemma FaceComp_total:
  assumes "curvature a \<noteq> NaN" and "curvature b \<noteq> NaN"
    and "\<not> double_eq (curvature a) (curvature b) \<or> triangle a \<noteq> triangle b
         \<or> tetrahedron a \<noteq> tetrahedron b"
  shows "FaceComp a b \<or> FaceComp b a"
proof -
  have "face_key a \<noteq> face_key b"
    using assms by (auto simp: face_key_def double_eq_def)
  then have "face_key a < face_key b \<or> face_key b < face_key a"
    by (rule linorder_neqE) simp_all
  with assms(1,2) show ?thesis
    by (simp add: FaceComp_face_key)
qed

lemma sorted_wrt_FaceComp_unique:
  assumes "sorted_wrt FaceComp xs" and "sorted_wrt FaceComp ys" and "set xs = set ys"
  shows "xs = ys"
  using assms
proof (induction xs arbitrary: ys)
  case Nil
  then show ?case by simp
next
  case (Cons x xs)
  then obtain y ys' where ys: "ys = y # ys'"
    by (cases ys) auto
  have x_min: "\<forall>z \<in> set xs. FaceComp x z" and y_min: "\<forall>z \<in> set ys'. FaceComp y z"
    using Cons.prems(1,2) ys by simp_all
  have "x = y"
  proof (rule ccontr)
    assume "x \<noteq> y"
    with Cons.prems(3) ys have "x \<in> set ys'" and "y \<in> set xs"
      by auto
    with x_min y_min have "FaceComp y x" and "FaceComp x y"
      by simp_all
    then show False
      by (simp add: FaceComp_asym)
  qed
  have "x \<notin> set xs" and "y \<notin> set ys'"
    using x_min y_min FaceComp_irrefl by blast+
  with Cons.prems(3) ys \<open>x = y\<close> have "set xs = set ys'"
    by auto
  moreover have "sorted_wrt FaceComp xs" and "sorted_wrt FaceComp ys'"
    using Cons.prems(1,2) ys by simp_all
  ultimately have "xs = ys'"
    by (intro Cons.IH)
  with ys \<open>x = y\<close> show ?case by simp
qed

lemma set_set_insert_subset: "set (set_insert x ys) \<subseteq> insert x (set ys)"
  by (induction ys) auto

lemma set_set_insert:
  assumes "\<forall>y \<in> set ys. x = y \<or> FaceComp x y \<or> FaceComp y x"
  shows "set (set_insert x ys) = insert x (set ys)"
  using assms by (induction ys) auto

lemma sorted_set_insert:
  "sorted_wrt FaceComp ys \<Longrightarrow> sorted_wrt FaceComp (set_insert x ys)"
proof (induction ys)
  case Nil
  show ?case by simp
next
  case (Cons y ys)
  then have IH: "sorted_wrt FaceComp (set_insert x ys)" and y: "\<forall>z \<in> set ys. FaceComp y z"
    and ys: "sorted_wrt FaceComp ys"
    by simp_all
  show ?case
  proof (cases "FaceComp x y")
    case True
    then have "\<forall>z \<in> set ys. FaceComp x z"
      using y FaceComp_trans by blast
    with True y ys show ?thesis by simp
  next
    case False
    show ?thesis
    proof (cases "FaceComp y x")
      case True
      have "\<forall>z \<in> set (set_insert x ys). FaceComp y z"
        using set_set_insert_subset [of x ys] y True by auto
      with False True IH show ?thesis
        by simp
    next
      case no: False
      with False y ys show ?thesis by simp
    qed
  qed
qed

lemma fold_set_insert:
  assumes "sorted_wrt FaceComp acc"
    and "\<forall>f \<in> set xs \<union> set acc. \<forall>g \<in> set xs \<union> set acc. f = g \<or> FaceComp f g \<or> FaceComp g f"
  shows "sorted_wrt FaceComp (fold set_insert xs acc)
         \<and> set (fold set_insert xs acc) = set xs \<union> set acc"
  using assms
proof (induction xs arbitrary: acc)
  case Nil
  then show ?case by simp
next
  case (Cons x xs)
  have ins: "set (set_insert x acc) = insert x (set acc)"
    using Cons.prems(2) by (intro set_set_insert) auto
  have "sorted_wrt FaceComp (set_insert x acc)"
    using Cons.prems(1) by (rule sorted_set_insert)
  moreover have "\<forall>f \<in> set xs \<union> set (set_insert x acc).
      \<forall>g \<in> set xs \<union> set (set_insert x acc). f = g \<or> FaceComp f g \<or> FaceComp g f"
    using Cons.prems(2) unfolding ins by auto
  ultimately have "sorted_wrt FaceComp (fold set_insert xs (set_insert x acc))
      \<and> set (fold set_insert xs (set_insert x acc)) = set xs \<union> set (set_insert x acc)"
    by (rule Cons.IH)
  then show ?case
    by (auto simp: ins)
qed

lemma fold_set_insert_order_independent:
  assumes "\<forall>f \<in> set xs. \<forall>g \<in> set xs. f = g \<or> FaceComp f g \<or> FaceComp g f"
    and "set xs = set ys"
  shows "fold set_insert xs [] = fold set_insert ys []"
proof -
  have "sorted_wrt FaceComp (fold set_insert xs []) \<and> set (fold set_insert xs []) = set xs \<union> set []"
    using assms(1) by (intro fold_set_insert) simp_all
  moreover have "sorted_wrt FaceComp (fold set_insert ys []) \<and> set (fold set_insert ys []) = set ys \<union> set []"
    using assms by (intro fold_set_insert) simp_all
  ultimately show ?thesis
    using assms(2) by (intro sorted_wrt_FaceComp_unique) simp_all
qed

text \<open>
  C2 as stated fails for a NaN curvature: every comparison with NaN is false, so a record
  whose curvature is NaN is ordered neither before nor after a record that differs from it
  in all three fields.  The set then keeps whichever of the two was inserted first.  It
  fails also for two records that differ in the sign of a zero curvature only, since
  \<open>+0.0 == -0.0\<close>.
\<close>

theorem FaceComp_nan_counterexample:
  "tetrahedron nan_face \<noteq> tetrahedron flat_face
   \<and> triangle nan_face \<noteq> triangle flat_face
   \<and> curvature nan_face \<noteq> curvature flat_face
   \<and> \<not> FaceComp nan_face flat_face
   \<and> \<not> FaceComp flat_face nan_face
   \<and> fold set_insert [nan_face, flat_face] [] = [nan_face]
   \<and> fold set_insert [flat_face, nan_face] [] = [flat_face]
   \<and> curvature plus_zero_face \<noteq> curvature minus_zero_face
   \<and> \<not> FaceComp plus_zero_face minus_zero_face
   \<and> \<not> FaceComp minus_zero_face plus_zero_face
   \<and> fold set_insert [plus_zero_face, minus_zero_face] [] = [plus_zero_face]
   \<and> fold set_insert [minus_zero_face, plus_zero_face] [] = [minus_zero_face]"
  by (simp add: nan_face_def flat_face_def plus_zero_face_def minus_zero_face_def FaceComp_def
      double_eq_def double_less_def)

text \<open>
  C2, amended.  \<open>FaceComp a b\<close> holds exactly when the triple (curvature, triangle,
  tetrahedron) of \<open>a\<close> is lexicographically less than that of \<open>b\<close>, the curvatures taken
  with the comparisons of double: the curvature is less, or the curvatures compare equal
  and the triangle index is less, or both are equal and the tetrahedron index is less.
  The comparator is irreflexive, transitive and asymmetric on all records.  Two records
  whose curvatures are not NaN and that differ (the curvatures compare unequal, or the
  triangle or the tetrahedron indices differ) are ordered one way or the other.  Two
  sequences sorted by the comparator that hold the same records are the same sequence,
  and inserting the same records into an empty set in two different orders gives the same
  set whenever any two of the records that differ are ordered by the comparator.
\<close>

theorem FaceComp_lexicographic_order:
  "(FaceComp a b \<longleftrightarrow>
      double_less (curvature a) (curvature b) \<or>
      double_eq (curvature a) (curvature b) \<and>
        (triangle a < triangle b \<or> triangle a = triangle b \<and> tetrahedron a < tetrahedron b))
   \<and> \<not> FaceComp a a
   \<and> (FaceComp a b \<longrightarrow> FaceComp b c \<longrightarrow> FaceComp a c)
   \<and> (FaceComp a b \<longrightarrow> \<not> FaceComp b a)
   \<and> (curvature a \<noteq> NaN \<longrightarrow> curvature b \<noteq> NaN \<longrightarrow>
        \<not> double_eq (curvature a) (curvature b) \<or> triangle a \<noteq> triangle b
          \<or> tetrahedron a \<noteq> tetrahedron b \<longrightarrow>
        FaceComp a b \<or> FaceComp b a)
   \<and> (sorted_wrt FaceComp xs \<longrightarrow> sorted_wrt FaceComp ys \<longrightarrow> set xs = set ys \<longrightarrow> xs = ys)
   \<and> ((\<forall>f \<in> set xs. \<forall>g \<in> set xs. f = g \<or> FaceComp f g \<or> FaceComp g f) \<longrightarrow>
        set xs = set ys \<longrightarrow> fold set_insert xs [] = fold set_insert ys [])"
proof (intro conjI impI)
  show "FaceComp a b \<longleftrightarrow>
      double_less (curvature a) (curvature b) \<or>
      double_eq (curvature a) (curvature b) \<and>
        (triangle a < triangle b \<or> triangle a = triangle b \<and> tetrahedron a < tetrahedron b)"
    by (rule FaceComp_lexicographic)
  show "\<not> FaceComp a a"
    by (rule FaceComp_irrefl)
  show "FaceComp a c" if "FaceComp a b" and "FaceComp b c"
    using that by (rule FaceComp_trans)
  show "\<not> FaceComp b a" if "FaceComp a b"
    using that by (rule FaceComp_asym)
  show "FaceComp a b \<or> FaceComp b a"
    if "curvature a \<noteq> NaN" and "curvature b \<noteq> NaN"
      and "\<not> double_eq (curvature a) (curvature b) \<or> triangle a \<noteq> triangle b
           \<or> tetrahedron a \<noteq> tetrahedron b"
    using that by (rule FaceComp_total)
  show "xs = ys" if "sorted_wrt FaceComp xs" and "sorted_wrt FaceComp ys" and "set xs = set ys"
    using that by (rule sorted_wrt_FaceComp_unique)
  show "fold set_insert xs [] = fold set_insert ys []"
    if "\<forall>f \<in> set xs. \<forall>g \<in> set xs. f = g \<or> FaceComp f g \<or> FaceComp g f"
      and "set xs = set ys"
    using that by (rule fold_set_insert_order_independent)
qed

theorem FaceComp_lexicographic_order_witness:
  "FaceComp \<lparr>tetrahedron = 5, triangle = 2, curvature = Finite 1\<rparr>
            \<lparr>tetrahedron = 0, triangle = 3, curvature = Finite 1\<rparr>
   \<and> FaceComp \<lparr>tetrahedron = 0, triangle = 3, curvature = Finite 1\<rparr>
              \<lparr>tetrahedron = 4, triangle = 3, curvature = NegZero\<rparr>
     = False
   \<and> FaceComp \<lparr>tetrahedron = 0, triangle = 3, curvature = Finite 1\<rparr>
              \<lparr>tetrahedron = 4, triangle = 3, curvature = Finite 1\<rparr>
   \<and> FaceComp \<lparr>tetrahedron = 5, triangle = 2, curvature = Finite 1\<rparr>
              \<lparr>tetrahedron = 4, triangle = 3, curvature = Finite 1\<rparr>
   \<and> \<not> FaceComp \<lparr>tetrahedron = 0, triangle = 3, curvature = Finite 1\<rparr>
                \<lparr>tetrahedron = 5, triangle = 2, curvature = Finite 1\<rparr>
   \<and> sorted_wrt FaceComp
        [\<lparr>tetrahedron = 5, triangle = 2, curvature = Finite 1\<rparr>,
         \<lparr>tetrahedron = 0, triangle = 3, curvature = Finite 1\<rparr>]
   \<and> fold set_insert
        [\<lparr>tetrahedron = 0, triangle = 3, curvature = Finite 1\<rparr>,
         \<lparr>tetrahedron = 5, triangle = 2, curvature = Finite 1\<rparr>] []
     = fold set_insert
        [\<lparr>tetrahedron = 5, triangle = 2, curvature = Finite 1\<rparr>,
         \<lparr>tetrahedron = 0, triangle = 3, curvature = Finite 1\<rparr>,
         \<lparr>tetrahedron = 5, triangle = 2, curvature = Finite 1\<rparr>] []"
proof -
  let ?f1 = "\<lparr>tetrahedron = 5, triangle = 2, curvature = Finite 1\<rparr>"
  let ?f2 = "\<lparr>tetrahedron = 0, triangle = 3, curvature = Finite 1\<rparr>"
  let ?f3 = "\<lparr>tetrahedron = 4, triangle = 3, curvature = Finite 1\<rparr>"
  let ?f4 = "\<lparr>tetrahedron = 4, triangle = 3, curvature = NegZero\<rparr>"
  have 12: "FaceComp ?f1 ?f2" and 23: "FaceComp ?f2 ?f3"
    by (simp_all add: FaceComp_def double_eq_def double_less_def)
  have 42: "FaceComp ?f4 ?f2"
    by (simp add: FaceComp_def double_eq_def double_less_def)
  have differ: "\<not> double_eq (curvature ?f1) (curvature ?f2) \<or> triangle ?f1 \<noteq> triangle ?f2
      \<or> tetrahedron ?f1 \<noteq> tetrahedron ?f2"
    by simp
  have ordered: "\<forall>f \<in> set [?f2, ?f1]. \<forall>g \<in> set [?f2, ?f1]. f = g \<or> FaceComp f g \<or> FaceComp g f"
    using 12 by simp
  have same: "set [?f2, ?f1] = set [?f1, ?f2, ?f1]"
    by auto
  have sorted: "sorted_wrt FaceComp [?f1, ?f2]"
    using 12 by simp
  note order = FaceComp_lexicographic_order [of ?f1 ?f2 ?f3 "[?f2, ?f1]" "[?f1, ?f2, ?f1]"]
  have "FaceComp ?f1 ?f3"
    using order 12 23 by blast
  moreover have "\<not> FaceComp ?f2 ?f1"
    using order 12 by blast
  moreover have "FaceComp ?f2 ?f4 = False"
    using FaceComp_lexicographic_order [of ?f4 ?f2 ?f3 "[]" "[]"] 42 by blast
  moreover have "fold set_insert [?f2, ?f1] [] = fold set_insert [?f1, ?f2, ?f1] []"
    using order ordered same by blast
  ultimately show ?thesis
    using 12 23 sorted by blast
qed

subsection \<open>Reads of the stores\<close>












subsection \<open>Signs and the product test\<close>




subsection \<open>The two example meshes\<close>

lemmas one_tetrahedron_defs =
  one_tetrahedron_hull_def one_tetrahedron_def unit_face_def well_indexed_def face_indexed_def
  face_triangle_def in_range_def face_corners_def vertex_def outer_tetrahedron_def

lemmas insideTetrahedron_defs =
  insideTetrahedron_def insideTetrahedron_reads_def insideTetrahedron_run_def corners_def
  corner_def vector_at_def











subsection \<open>The point-in-tetrahedron test\<close>






subsection \<open>Subscripts used by the point-in-tetrahedron test\<close>

lemma fst_centroid_loop_Cons:
  "fst (centroid_loop h tetra (j # js) mid) =
     (case vector_at (vertices h) (at4 (tet_vertices tetra) j) of
        None \<Rightarrow> [VertexOfTetra (at4 (tet_vertices tetra) j)]
      | Some v \<Rightarrow> VertexOfTetra (at4 (tet_vertices tetra) j)
                  # fst (centroid_loop h tetra js (vec_add mid (vec_div v (Finite 4)))))"
  by (simp add: Let_def split: option.splits prod.splits)

lemma centroid_loop_reads:
  "set (fst (centroid_loop h tetra js mid))
   \<subseteq> (\<lambda>j. VertexOfTetra (at4 (tet_vertices tetra) j)) ` set js"
proof (induction js arbitrary: mid)
  case Nil
  show ?case by simp
next
  case (Cons j js)
  show ?case
  proof (cases "vector_at (vertices h) (at4 (tet_vertices tetra) j)")
    case None
    then show ?thesis
      by (simp add: fst_centroid_loop_Cons del: centroid_loop.simps)
  next
    case (Some v)
    with Cons.IH [of "vec_add mid (vec_div v (Finite 4))"] show ?thesis
      by (auto simp: fst_centroid_loop_Cons simp del: centroid_loop.simps)
  qed
qed

lemma corner_reads: "VertexOfTetra k \<notin> set (fst (corner h tetra i j))"
  by (simp add: corner_def Let_def split: option.splits)

lemma fst_corners:
  "set (fst (corners h tetra i))
   \<subseteq> set (fst (corner h tetra i 0)) \<union> set (fst (corner h tetra i 1))
     \<union> set (fst (corner h tetra i 2))"
  by (auto simp: corners_def split: prod.splits option.splits)

lemma corners_reads: "VertexOfTetra k \<notin> set (fst (corners h tetra i))"
  using fst_corners [of h tetra i] corner_reads [of k h tetra i] by blast

lemma fst_face_loop_Cons:
  "set (fst (face_loop h pos mid tetra (i # is)))
   \<subseteq> set (fst (corners h tetra i)) \<union> set (fst (face_loop h pos mid tetra is))"
  by (auto split: prod.splits option.splits if_splits)

lemma face_loop_reads: "VertexOfTetra k \<notin> set (fst (face_loop h pos mid tetra is))"
proof (induction "is")
  case Nil
  show ?case by simp
next
  case (Cons i "is")
  with corners_reads [of k h tetra i] fst_face_loop_Cons [of h pos mid tetra i "is"]
  show ?case by blast
qed

lemma insideTetrahedron_reads_outer:
  "outer_tetrahedron tetra \<Longrightarrow> insideTetrahedron_reads h pos tetra = []"
  by (simp add: insideTetrahedron_reads_def insideTetrahedron_run_def)

lemma insideTetrahedron_reads_split:
  assumes "\<not> outer_tetrahedron tetra"
  shows "\<exists>rs. set (insideTetrahedron_reads h pos tetra)
           \<subseteq> set (fst (centroid_loop h tetra [0, 1, 2, 3] (Finite 0, Finite 0, Finite 0))) \<union> rs
           \<and> (\<forall>k. VertexOfTetra k \<notin> rs)"
proof (cases "snd (centroid_loop h tetra [0, 1, 2, 3] (Finite 0, Finite 0, Finite 0))")
  case None
  then have "insideTetrahedron_reads h pos tetra = fst (centroid_loop h tetra [0, 1, 2, 3] (Finite 0, Finite 0, Finite 0))"
    using assms
    by (cases "centroid_loop h tetra [0, 1, 2, 3] (Finite 0, Finite 0, Finite 0)")
      (simp add: insideTetrahedron_reads_def insideTetrahedron_run_def)
  then show ?thesis
    by (intro exI [of _ "{}"]) simp
next
  case (Some mid)
  then have "insideTetrahedron_reads h pos tetra =
      fst (centroid_loop h tetra [0, 1, 2, 3] (Finite 0, Finite 0, Finite 0)) @ fst (face_loop h pos mid tetra [0, 1, 2, 3])"
    using assms
    by (cases "centroid_loop h tetra [0, 1, 2, 3] (Finite 0, Finite 0, Finite 0)")
      (simp add: insideTetrahedron_reads_def insideTetrahedron_run_def split: prod.splits)
  then show ?thesis
    using face_loop_reads [of _ h pos mid tetra "[0, 1, 2, 3]"]
    by (intro exI [of _ "set (fst (face_loop h pos mid tetra [0, 1, 2, 3]))"]) simp
qed

lemma insideTetrahedron_reads_vertex:
  assumes "VertexOfTetra k \<in> set (insideTetrahedron_reads h pos tetra)"
  shows "k \<noteq> - 1"
proof -
  have no: "\<not> outer_tetrahedron tetra"
    using assms insideTetrahedron_reads_outer [of tetra h pos] by auto
  then have "VertexOfTetra k \<in> set (fst (centroid_loop h tetra [0, 1, 2, 3] (Finite 0, Finite 0, Finite 0)))"
    using assms insideTetrahedron_reads_split [of tetra h pos] by blast
  then have "VertexOfTetra k \<in> (\<lambda>j. VertexOfTetra (at4 (tet_vertices tetra) j)) ` set [0, 1, 2, 3]"
    using centroid_loop_reads by blast
  then show ?thesis
    using no by (auto simp: outer_tetrahedron_def)
qed

text \<open>
  C9 as stated fails for the triangle store: the guard tests the four vertex
  indices only.  A tetrahedron whose vertex indices are all valid and whose first
  bounding-triangle index is \<open>-1\<close> passes the guard, and \<open>triangles\<close> is subscripted with
  that \<open>-1\<close>.
\<close>

theorem insideTetrahedron_triangle_index_counterexample:
  "\<not> outer_tetrahedron unlinked_tetrahedron
   \<and> TriangleOfTetra (- 1)
       \<in> set (insideTetrahedron_reads one_tetrahedron_hull (vec 1 1 0) unlinked_tetrahedron)
   \<and> insideTetrahedron one_tetrahedron_hull (vec 1 1 0) unlinked_tetrahedron = None"
  by (simp add: unlinked_tetrahedron_def insideTetrahedron_defs one_tetrahedron_defs)

text \<open>
  C9, amended.  For a tetrahedron one of whose vertex indices is \<open>-1\<close>,
  \<open>insideTetrahedron\<close> subscripts neither store: the guard comes before every read.  So
  whenever a store is subscripted, the four vertex indices of the queried tetrahedron are
  all different from \<open>-1\<close>, and \<open>vertices\<close> is never subscripted with a \<open>-1\<close> taken from
  the tetrahedron's vertex indices.  Nothing is said of the bounding-triangle indices,
  which the function does not test.
\<close>

theorem insideTetrahedron_reads_guarded:
  "(outer_tetrahedron tetra \<longrightarrow> insideTetrahedron_reads h pos tetra = [])
   \<and> (a \<in> set (insideTetrahedron_reads h pos tetra) \<longrightarrow>
        at4 (tet_vertices tetra) 0 \<noteq> - 1 \<and> at4 (tet_vertices tetra) 1 \<noteq> - 1 \<and>
        at4 (tet_vertices tetra) 2 \<noteq> - 1 \<and> at4 (tet_vertices tetra) 3 \<noteq> - 1)
   \<and> (VertexOfTetra k \<in> set (insideTetrahedron_reads h pos tetra) \<longrightarrow> k \<noteq> - 1)"
proof (intro conjI impI)
  assume "outer_tetrahedron tetra"
  then show "insideTetrahedron_reads h pos tetra = []"
    by (rule insideTetrahedron_reads_outer)
next
  assume "a \<in> set (insideTetrahedron_reads h pos tetra)"
  then have "\<not> outer_tetrahedron tetra"
    using insideTetrahedron_reads_outer [of tetra h pos] by auto
  then show "at4 (tet_vertices tetra) 0 \<noteq> - 1" and "at4 (tet_vertices tetra) 1 \<noteq> - 1"
    and "at4 (tet_vertices tetra) 2 \<noteq> - 1" and "at4 (tet_vertices tetra) 3 \<noteq> - 1"
    by (simp_all add: outer_tetrahedron_def)
next
  assume "VertexOfTetra k \<in> set (insideTetrahedron_reads h pos tetra)"
  then show "k \<noteq> - 1"
    by (rule insideTetrahedron_reads_vertex)
qed

theorem insideTetrahedron_reads_guarded_witness:
  "outer_tetrahedron half_outer_tetrahedron
   \<and> insideTetrahedron_reads one_tetrahedron_hull (vec 1 1 1) half_outer_tetrahedron = []
   \<and> VertexOfTetra 0 \<in> set (insideTetrahedron_reads one_tetrahedron_hull (vec 1 1 (- 1)) one_tetrahedron)
   \<and> at4 (tet_vertices one_tetrahedron) 1 \<noteq> - 1"
proof -
  have outer: "outer_tetrahedron half_outer_tetrahedron"
    by (simp add: half_outer_tetrahedron_def one_tetrahedron_defs)
  have read: "VertexOfTetra 0
      \<in> set (insideTetrahedron_reads one_tetrahedron_hull (vec 1 1 (- 1)) one_tetrahedron)"
    by (simp add: insideTetrahedron_defs one_tetrahedron_defs)
  have "insideTetrahedron_reads one_tetrahedron_hull (vec 1 1 1) half_outer_tetrahedron = []"
    using insideTetrahedron_reads_guarded
      [of half_outer_tetrahedron one_tetrahedron_hull "vec 1 1 1" "VertexOfTetra 0" 0] outer
    by simp
  moreover have "at4 (tet_vertices one_tetrahedron) 1 \<noteq> - 1"
    using insideTetrahedron_reads_guarded
      [of one_tetrahedron one_tetrahedron_hull "vec 1 1 (- 1)" "VertexOfTetra 0" 0] read
    by simp
  ultimately show ?thesis
    using outer read by simp
qed

subsection \<open>Validity of a tetrahedron\<close>

text \<open>
  C8 as stated fails: \<open>valid()\<close> reads the first vertex index only.  The
  tetrahedron with vertex indices \<open>(0, -1, 2, 3)\<close> is valid, and \<open>insideTetrahedron\<close>
  treats it as an outer tetrahedron.
\<close>

theorem Tetrahedron_valid_counterexample:
  "Tetrahedron_valid half_outer_tetrahedron
   \<and> at4 (tet_vertices half_outer_tetrahedron) 1 = - 1
   \<and> outer_tetrahedron half_outer_tetrahedron
   \<and> insideTetrahedron one_tetrahedron_hull (vec 1 1 1) half_outer_tetrahedron = Some False"
  by (simp add: half_outer_tetrahedron_def Tetrahedron_valid_def insideTetrahedron_defs
      one_tetrahedron_defs)

text \<open>
  C8, amended.  \<open>valid()\<close> returns false exactly when the first vertex index is \<open>-1\<close>.
  A tetrahedron that is not valid is an outer tetrahedron for \<open>insideTetrahedron\<close>; the
  two tests classify the same tetrahedra as sentinels among those whose four vertex
  indices are all \<open>-1\<close> or all different from \<open>-1\<close>.
\<close>

theorem Tetrahedron_valid_first_vertex:
  "(\<not> Tetrahedron_valid t \<longleftrightarrow> at4 (tet_vertices t) 0 = - 1)
   \<and> (\<not> Tetrahedron_valid t \<longrightarrow> outer_tetrahedron t)
   \<and> (uniform_vertices t \<longrightarrow> (\<not> Tetrahedron_valid t \<longleftrightarrow> outer_tetrahedron t))"
proof -
  have first: "\<not> Tetrahedron_valid t \<longleftrightarrow> at4 (tet_vertices t) 0 = - 1"
    by (simp add: Tetrahedron_valid_def)
  have outer: "outer_tetrahedron t" if "\<not> Tetrahedron_valid t"
    using that first by (simp add: outer_tetrahedron_def)
  have "at4 (tet_vertices t) 0 = - 1" if "uniform_vertices t" and "outer_tetrahedron t"
    using that by (auto simp: uniform_vertices_def outer_tetrahedron_def)
  then have "\<not> Tetrahedron_valid t" if "uniform_vertices t" and "outer_tetrahedron t"
    using that first by simp
  with first outer show ?thesis
    by blast
qed

theorem Tetrahedron_valid_first_vertex_witness:
  "uniform_vertices default_tetrahedron
   \<and> \<not> Tetrahedron_valid default_tetrahedron
   \<and> outer_tetrahedron default_tetrahedron
   \<and> uniform_vertices one_tetrahedron
   \<and> Tetrahedron_valid one_tetrahedron
   \<and> \<not> outer_tetrahedron one_tetrahedron"
proof -
  have u: "uniform_vertices default_tetrahedron" "uniform_vertices one_tetrahedron"
    by (simp_all add: uniform_vertices_def default_tetrahedron_def one_tetrahedron_def)
  have v: "\<not> Tetrahedron_valid default_tetrahedron" "Tetrahedron_valid one_tetrahedron"
    by (simp_all add: Tetrahedron_valid_def default_tetrahedron_def one_tetrahedron_def)
  have "outer_tetrahedron default_tetrahedron"
    using Tetrahedron_valid_first_vertex [of default_tetrahedron] v(1) by blast
  moreover have "\<not> outer_tetrahedron one_tetrahedron"
    using Tetrahedron_valid_first_vertex [of one_tetrahedron] u(2) v(2) by blast
  ultimately show ?thesis
    using u v by simp
qed

subsection \<open>The frontier step\<close>

lemma growFront_calls_exhausted:
  assumes "growFront consume maxCurvature h = (False, h)"
  shows "growFront_calls consume maxCurvature n h = (replicate n False, h)"
  using assms by (induction n) simp_all

text \<open>
  C5.  When the candidate set is empty, or every candidate in it has a curvature above
  \<open>maxCurvature\<close>, \<open>growFront\<close> returns false and the hull it leaves is the hull it was
  given: no flag of a triangle or of a tetrahedron changes.  Any number of further calls
  return false and leave the hull as it is.
\<close>

theorem growFront_converged_noop:
  assumes "surface h = [] \<or> (\<forall>f \<in> set (surface h). double_less maxCurvature (curvature f))"
  shows "growFront consume maxCurvature h = (False, h)
         \<and> growFront_calls consume maxCurvature n h = (replicate n False, h)"
proof -
  have "growFront consume maxCurvature h = (False, h)"
    using assms by (cases "surface h") (auto simp: growFront_def)
  then show ?thesis
    by (simp add: growFront_calls_exhausted)
qed

theorem growFront_converged_noop_witness:
  "surface one_tetrahedron_hull = []
   \<and> growFront mark_all_seen (Finite 1) one_tetrahedron_hull = (False, one_tetrahedron_hull)
   \<and> surface waiting_hull = [\<lparr>tetrahedron = 0, triangle = 3, curvature = Finite 5\<rparr>]
   \<and> growFront mark_all_seen (Finite 1) waiting_hull = (False, waiting_hull)
   \<and> growFront_calls mark_all_seen (Finite 1) 3 waiting_hull = ([False, False, False], waiting_hull)
   \<and> fst (growFront mark_all_seen (Finite 7) waiting_hull)"
proof -
  have empty: "surface one_tetrahedron_hull = []"
    by (simp add: one_tetrahedron_hull_def)
  have one: "surface waiting_hull = [\<lparr>tetrahedron = 0, triangle = 3, curvature = Finite 5\<rparr>]"
    by (simp add: waiting_hull_def)
  then have above: "surface waiting_hull = [] \<or>
      (\<forall>f \<in> set (surface waiting_hull). double_less (Finite 1) (curvature f))"
    by (simp add: double_less_def)
  have "growFront mark_all_seen (Finite 1) one_tetrahedron_hull = (False, one_tetrahedron_hull)"
    using growFront_converged_noop [of one_tetrahedron_hull "Finite 1" mark_all_seen 0] empty
    by simp
  moreover have "growFront mark_all_seen (Finite 1) waiting_hull = (False, waiting_hull)
      \<and> growFront_calls mark_all_seen (Finite 1) 3 waiting_hull = (replicate 3 False, waiting_hull)"
    by (rule growFront_converged_noop [OF above])
  moreover have "replicate 3 False = [False, False, False]"
    by (simp add: numeral_3_eq_3)
  moreover have "fst (growFront mark_all_seen (Finite 7) waiting_hull)"
    by (simp add: growFront_def one double_less_def)
  ultimately show ?thesis
    using empty one by simp
qed

end
